theory Spec2Isabelle
  imports Complex_Main
begin

section \<open>Common Python/numpy vocabulary\<close>

text \<open>
  Exceptions of the Python run time that the modelled functions can raise. A function
  that can raise returns \<open>pyerror + 'a\<close>, with \<open>Inl\<close> for the exception.
  Floating-point arrays are lists of reals: infinities and NaN are outside the model,
  and so is rounding except in the stores to the output table of the emission-line fit;
  every division is guarded explicitly where a property depends on it.
\<close>

datatype pyerror =
    NameError string
  | AttributeError string
  | KeyError string
  | ValueError string
  | IndexError
  | ZeroDivisionError
  | AssertionError
  | BdbQuit
  | RuntimeError string

text \<open>\<open>a / b\<close> on floats: a zero divisor is an error (numpy gives inf/NaN there).\<close>

definition truediv :: "real \<Rightarrow> real \<Rightarrow> pyerror + real" where
  "truediv a b = (if b = 0 then Inl ZeroDivisionError else Inr (a / b))"

text \<open>\<open>np.sum(a > 0)\<close>: the number of strictly positive entries.\<close>

definition count_positive :: "real list \<Rightarrow> int" where
  "count_positive a = int (length (filter (\<lambda>v. v > 0) a))"

text \<open>\<open>np.sum(ivar * (flux - model)**2)\<close> on parallel arrays.\<close>

definition weighted_rss :: "real list \<Rightarrow> real list \<Rightarrow> real list \<Rightarrow> real" where
  "weighted_rss ivar flux model =
     sum_list (map2 (\<lambda>w r. w * r\<^sup>2) ivar (map2 (\<lambda>f m. f - m) flux model))"

section \<open>emlines.py: \<open>EMLineFit.chi2\<close>\<close>

text \<open>
  \<open>self\<close> carries \<open>chi2_default\<close> (constructor argument, default \<open>0.0\<close>). The fitted model
  \<open>bestfit\<close> is an astropy model object; the method uses only its count of free
  parameters and its evaluation on the wavelength array.
\<close>

record emlinefit =
  chi2_default :: real

record bestfit_model =
  count_free_parameters :: int
  evaluate :: "real list \<Rightarrow> real list"

definition EMLineFit_init :: emlinefit where
  "EMLineFit_init = \<lparr> chi2_default = 0 \<rparr>"

datatype chi2_result = Chi2 real | Chi2_dof real int

definition chi2 ::
  "emlinefit \<Rightarrow> bestfit_model \<Rightarrow> real list \<Rightarrow> real list \<Rightarrow> real list \<Rightarrow>
   real list option \<Rightarrow> bool \<Rightarrow> pyerror + chi2_result" where
  "chi2 self bestfit emlinewave emlineflux emlineivar continuum_model return_dof =
     (let nfree = count_free_parameters bestfit;
          dof = count_positive emlineivar - nfree;
          r = (if dof > 0 then
                 (let emlinemodel = evaluate bestfit emlinewave;
                      model = (case continuum_model of
                                 None \<Rightarrow> emlinemodel
                               | Some c \<Rightarrow> map2 (\<lambda>a b. a + b) emlinemodel c)
                  in truediv (weighted_rss emlineivar emlineflux model) (real_of_int dof))
               else Inr (chi2_default self))
      in case r of
           Inl e \<Rightarrow> Inl e
         | Inr c \<Rightarrow> Inr (if return_dof then Chi2_dof c dof else Chi2 c))"

section \<open>emlines.py: the broad-line decision of \<open>EMLineFit.fit\<close>\<close>

text \<open>
  Lines 954--975. \<open>linechi2\<close> is the chi-square restricted to the pixels \<open>broadlinepix\<close>
  (indices into the stacked spectrum), divided by their number. \<open>alldropped\<close> reads the
  amplitudes of all broad Balmer lines of the broad-stage fit.
\<close>

definition linechi2 :: "real list \<Rightarrow> real list \<Rightarrow> real list \<Rightarrow> nat list \<Rightarrow> real" where
  "linechi2 emlineivar emlineflux model broadlinepix =
     sum_list (map (\<lambda>i. emlineivar ! i * (emlineflux ! i - model ! i)\<^sup>2) broadlinepix)
       / real (length broadlinepix)"

definition alldropped :: "real list \<Rightarrow> bool" where
  "alldropped broad_amps = list_all (\<lambda>a. a = 0) broad_amps"

datatype bestfit_choice = Initfit | Broadfit

definition choose_bestfit :: "real list \<Rightarrow> real \<Rightarrow> real \<Rightarrow> bestfit_choice" where
  "choose_bestfit broad_amps linechi2_broad linechi2_init =
     (if alldropped broad_amps \<or> linechi2_broad > linechi2_init then Initfit else Broadfit)"

definition broad_decision ::
  "real list \<Rightarrow> real list \<Rightarrow> real list \<Rightarrow> real list \<Rightarrow> nat list \<Rightarrow> real list \<Rightarrow> bestfit_choice" where
  "broad_decision emlineivar emlineflux initmodel broadmodel broadlinepix broad_amps =
     (let linechi2_init = linechi2 emlineivar emlineflux initmodel broadlinepix;
          linechi2_broad = linechi2 emlineivar emlineflux broadmodel broadlinepix
      in choose_bestfit broad_amps linechi2_broad linechi2_init)"

text \<open>
  The decision as the specification words it: the broad model is rejected when all broad
  amplitudes are zero or when its local chi-square is not better (not smaller) than the
  narrow one.
\<close>

definition spec_choose_bestfit :: "real list \<Rightarrow> real \<Rightarrow> real \<Rightarrow> bestfit_choice" where
  "spec_choose_bestfit broad_amps linechi2_broad linechi2_init =
     (if alldropped broad_amps \<or> \<not> linechi2_broad < linechi2_init then Initfit else Broadfit)"

section \<open>continuum.py: \<open>ContinuumTools.estimate_linesigmas\<close>\<close>

text \<open>
  Lines 823--895. The nested \<open>get_linesigma(zlinewaves, init_linesigma)\<close> stacks the lines
  and calls scipy's \<open>curve_fit\<close>; it is a parameter here, returning the fitted width and
  its signal-to-noise (both 0 when nothing was fitted). \<open>class_linesigma\<close> is the block
  that the function repeats for the narrow, Balmer and UV classes, with the class's
  initial width and the literal lower limit of its final test.
\<close>

definition linesigma_snr_min :: real where
  "linesigma_snr_min = 1.5"

definition init_linesigma_balmer :: real where
  "init_linesigma_balmer = 1000"

definition init_linesigma_narrow :: real where
  "init_linesigma_narrow = 200"

definition init_linesigma_uv :: real where
  "init_linesigma_uv = 2000"

definition class_linesigma ::
  "(real list \<Rightarrow> real \<Rightarrow> real \<times> real) \<Rightarrow> bool \<Rightarrow> real list \<Rightarrow> real \<Rightarrow> real \<Rightarrow> real \<times> real" where
  "class_linesigma get_linesigma refit zlinewaves init_linesigma lower =
     (let (linesigma, linesigma_snr) = get_linesigma zlinewaves init_linesigma;
          (linesigma, linesigma_snr) =
             (if refit \<and> linesigma_snr > 0 \<and>
                 (linesigma > init_linesigma \<and> linesigma < 5 * init_linesigma \<and>
                  linesigma_snr > linesigma_snr_min)
              then get_linesigma zlinewaves linesigma
              else (linesigma, linesigma_snr))
      in if linesigma < lower \<or> linesigma > 5 * init_linesigma \<or>
            linesigma_snr < linesigma_snr_min
         then (init_linesigma, 0)
         else (linesigma, linesigma_snr))"

record linesigmas =
  linesigma_narrow :: real
  linesigma_balmer :: real
  linesigma_uv :: real
  linesigma_narrow_snr :: real
  linesigma_balmer_snr :: real
  linesigma_uv_snr :: real

definition estimate_linesigmas ::
  "(real list \<Rightarrow> real \<Rightarrow> real \<times> real) \<Rightarrow> real \<Rightarrow> bool \<Rightarrow> linesigmas" where
  "estimate_linesigmas get_linesigma redshift refit =
     (let (n, nsnr) = class_linesigma get_linesigma refit
                        (map (\<lambda>w. w * (1 + redshift)) [3728.483, 4960.295, 5008.239])
                        init_linesigma_narrow 50;
          (b, bsnr) = class_linesigma get_linesigma refit
                        (map (\<lambda>w. w * (1 + redshift)) [4862.683, 6564.613])
                        init_linesigma_balmer 50;
          (u, usnr) = class_linesigma get_linesigma refit
                        (map (\<lambda>w. w * (1 + redshift)) [1549.4795, 2799.942])
                        init_linesigma_uv 300
      in \<lparr> linesigma_narrow = n, linesigma_balmer = b, linesigma_uv = u,
           linesigma_narrow_snr = nsnr, linesigma_balmer_snr = bsnr,
           linesigma_uv_snr = usnr \<rparr>)"

text \<open>
  The acceptance test as the specification words it: the signal-to-noise exceeds the
  minimum and the width lies in \<open>[anchor, 5 * anchor]\<close>.
\<close>

definition spec_accepts :: "real \<Rightarrow> real \<Rightarrow> real \<Rightarrow> bool" where
  "spec_accepts anchor width snr =
     (snr > linesigma_snr_min \<and> anchor \<le> width \<and> width \<le> 5 * anchor)"

section \<open>continuum.py: the NNLS wrapper\<close>

text \<open>
  Arrays of shape \<open>[npix]\<close> are lists, arrays of shape \<open>[npix, nage]\<close> are lists of rows.
  \<open>fastspecfit.fnnls.fnnls\<close> is imported by \<open>fnnls_continuum\<close> but is not part of the
  sources at hand; the wrapper takes the solver as its first argument.
\<close>

type_synonym vec = "real list"
type_synonym matrix = "real list list"

definition dot :: "vec \<Rightarrow> vec \<Rightarrow> real" where
  "dot a b = sum_list (map2 (\<lambda>x y. x * y) a b)"

definition matvec :: "matrix \<Rightarrow> vec \<Rightarrow> vec" where
  "matvec A x = map (\<lambda>row. dot row x) A"

text \<open>\<open>ZZ.T.dot(ZZ)\<close> and \<open>ZZ.T.dot(xx)\<close>.\<close>

definition gram :: "matrix \<Rightarrow> matrix" where
  "gram ZZ = (let cols = transpose ZZ in map (\<lambda>ci. map (\<lambda>cj. dot ci cj) cols) cols)"

definition tdot :: "matrix \<Rightarrow> vec \<Rightarrow> vec" where
  "tdot ZZ xx = map (\<lambda>ci. dot ci xx) (transpose ZZ)"

definition fnnls_continuum ::
  "(matrix \<Rightarrow> vec \<Rightarrow> vec) \<Rightarrow> matrix \<Rightarrow> vec \<Rightarrow> vec \<Rightarrow> vec \<Rightarrow> matrix \<Rightarrow> bool \<Rightarrow>
   bool \<times> vec \<times> real option" where
  "fnnls_continuum fnnls ZZ xx flux ivar modelflux get_chi2 =
     (let AtA = gram ZZ;
          Aty = tdot ZZ xx;
          coeff = fnnls AtA Aty;
          warn = False
      in if get_chi2
         then (warn, coeff, Some (weighted_rss ivar flux (matvec modelflux coeff)))
         else (warn, coeff, None))"

text \<open>\<open>_fnnls_parallel\<close> with \<open>xparam=None\<close>: one solve, returning \<open>(coeff, chi2)\<close>.\<close>

definition fnnls_parallel_fixed ::
  "(matrix \<Rightarrow> vec \<Rightarrow> vec) \<Rightarrow> matrix \<Rightarrow> vec \<Rightarrow> vec \<Rightarrow> vec \<times> real" where
  "fnnls_parallel_fixed fnnls modelflux flux ivar =
     (let ww = map sqrt ivar;
          xx = map2 (\<lambda>f w. f * w) flux ww;
          ZZ = map2 (\<lambda>row w. map (\<lambda>v. v * w) row) modelflux ww;
          (warn, coeff, chi2) = fnnls_continuum fnnls ZZ xx flux ivar modelflux True
      in (coeff, the chi2))"

section \<open>continuum.py: \<open>ContinuumFit\<close> and its inputs\<close>

record continuumfit =
  AV_nominal :: real
  vdisp_nominal :: real
  solve_vdisp :: bool
  nage :: nat
  npix :: nat
  fluxnorm :: real
  massnorm :: real
  bands_to_fit :: "bool list"

record specdata =
  zredrock :: real
  cameras :: "string list"
  snr :: "real list"
  wave :: "real list list"
  phot_flam :: "real list"
  phot_flam_ivar :: "real list"

subsection \<open>The reduced chi-square of \<open>continuum_specfit\<close>\<close>

text \<open>
  Lines 1857--1861 and 1995--2003, 2096. The inverse variance is zeroed on line-masked
  pixels; a spectrum without a usable pixel, or with a negative inverse variance, raises.
  The model spectra \<open>bestsspflux\<close> at the best \<open>(A(V), vdisp)\<close> come from \<open>SSP2data\<close>.
\<close>

definition mask_lines :: "real list \<Rightarrow> bool list \<Rightarrow> real list" where
  "mask_lines ivar linemask = map2 (\<lambda>v m. if m then 0 else v) ivar linemask"

definition continuum_specfit_rchi2 ::
  "(matrix \<Rightarrow> vec \<Rightarrow> vec) \<Rightarrow> real list \<Rightarrow> bool list \<Rightarrow> real list \<Rightarrow> matrix \<Rightarrow> pyerror + real" where
  "continuum_specfit_rchi2 fnnls ivar linemask specflux bestsspflux =
     (let specivar = mask_lines ivar linemask
      in if list_all (\<lambda>v. v = 0) specivar \<or> list_ex (\<lambda>v. v < 0) specivar
         then Inl (ValueError ''All pixels are masked or some inverse variances are negative!'')
         else (let (coeff, chi2min) = fnnls_parallel_fixed fnnls bestsspflux specflux specivar
               in truediv chi2min (real_of_int (count_positive specivar))))"

subsection \<open>The velocity-dispersion stage of \<open>continuum_specfit\<close>\<close>















subsection \<open>\<open>continuum_fastphot\<close>\<close>

text \<open>
  Lines 1714--1819. The template preparation (\<open>younger_than_universe\<close>, \<open>SSP2data\<close>) is the
  outcome \<open>prep\<close>; the fit of the unmasked branch and the derived quantities of a non-zero
  fit (\<open>get_dn4000\<close>, \<open>get_meanage\<close>, \<open>kcorr_and_absmag\<close>) are the parameters \<open>fit_phot\<close>
  and \<open>derive\<close>. \<open>CONTINUUM_COEFF\<close> has one entry per template, \<open>len(sspinfo) = nage\<close>.
\<close>

record phot_fit =
  fit_AVbest :: real
  fit_AVivar :: real
  fit_nage :: nat
  fit_chi2min :: real
  fit_coeff :: "real list"
  fit_continuummodel :: "real list"

record phot_result =
  CONTINUUM_COEFF :: "real list"
  CONTINUUM_RCHI2 :: real
  CONTINUUM_AGE :: real
  CONTINUUM_AV :: real
  CONTINUUM_AV_IVAR :: real
  DN4000_MODEL :: real
  MSTAR :: real

definition init_phot_output :: "continuumfit \<Rightarrow> phot_result" where
  "init_phot_output self =
     \<lparr> CONTINUUM_COEFF = replicate (nage self) 0, CONTINUUM_RCHI2 = 0, CONTINUUM_AGE = 0,
       CONTINUUM_AV = 0, CONTINUUM_AV_IVAR = 0, DN4000_MODEL = 0, MSTAR = 0 \<rparr>"

text \<open>\<open>row[:n] = values\<close> on a numpy row: the shapes must agree.\<close>

definition assign_prefix :: "real list \<Rightarrow> nat \<Rightarrow> real list \<Rightarrow> pyerror + real list" where
  "assign_prefix row n vals =
     (if length vals = min n (length row) then Inr (vals @ drop n row)
      else Inl (ValueError ''could not broadcast input array''))"

definition continuum_fastphot ::
  "continuumfit \<Rightarrow> specdata \<Rightarrow> pyerror + 't \<Rightarrow>
   ('t \<Rightarrow> real list \<Rightarrow> real list \<Rightarrow> pyerror + phot_fit) \<Rightarrow>
   (phot_fit \<Rightarrow> pyerror + real \<times> real \<times> real) \<Rightarrow>
   pyerror + phot_result \<times> real list" where
  "continuum_fastphot self data prep fit_phot derive =
     (let result = init_phot_output self
      in case prep of
           Inl e \<Rightarrow> Inl e
         | Inr templates \<Rightarrow>
            if length (phot_flam_ivar data) \<noteq> length (bands_to_fit self)
            then Inl (ValueError ''operands could not be broadcast together'')
            else
            (let objflam = map (\<lambda>f. f * fluxnorm self) (phot_flam data);
                 objflamivar = map2 (\<lambda>v b. (v / (fluxnorm self)\<^sup>2) * (if b then 1 else 0))
                                 (phot_flam_ivar data) (bands_to_fit self)
             in if \<not> list_all (\<lambda>v. v \<ge> 0) objflamivar then Inl AssertionError
                else
                (case (if list_all (\<lambda>v. v = 0) objflamivar
                       then Inr \<lparr> fit_AVbest = AV_nominal self, fit_AVivar = 0,
                                  fit_nage = nage self, fit_chi2min = 0,
                                  fit_coeff = replicate (nage self) 0,
                                  fit_continuummodel = replicate (npix self) 0 \<rparr>
                       else fit_phot templates objflam objflamivar) of
                   Inl e \<Rightarrow> Inl e
                 | Inr ft \<Rightarrow>
                    (case (if length (filter (\<lambda>c. c > 0) (fit_coeff ft)) = 0
                           then Inr (0, - 1, - 1, - 1)
                           else (case derive ft of
                                   Inl e \<Rightarrow> Inl e
                                 | Inr (dn4000, meanage, mstar) \<Rightarrow>
                                     Inr (fit_chi2min ft, dn4000, meanage, mstar))) of
                       Inl e \<Rightarrow> Inl e
                     | Inr (chi2min, dn4000, meanage, mstar) \<Rightarrow>
                        (case assign_prefix (CONTINUUM_COEFF result) (fit_nage ft) (fit_coeff ft) of
                           Inl e \<Rightarrow> Inl e
                         | Inr row \<Rightarrow>
                             Inr (\<lparr> CONTINUUM_COEFF = row, CONTINUUM_RCHI2 = chi2min,
                                    CONTINUUM_AGE = meanage, CONTINUUM_AV = fit_AVbest ft,
                                    CONTINUUM_AV_IVAR = fit_AVivar ft, DN4000_MODEL = dn4000,
                                    MSTAR = mstar \<rparr>,
                                  fit_continuummodel ft))))))"

section \<open>continuum.py: the grid-search mode of \<open>_fnnls_parallel\<close>\<close>

text \<open>
  Lines 1605--1691 with \<open>xparam\<close> given. The model spectra \<open>modelflux[npix, nage, nparam]\<close>
  are the list of their slices \<open>modelflux[:, :, ii]\<close>. \<open>find_minima\<close> and \<open>minfit\<close> are
  imported from \<open>fastspecfit.util\<close>, which is not part of the sources at hand: they are
  arguments of the model, \<open>find_minima\<close> returning indices and \<open>minfit\<close> returning
  \<open>(xbest, xerr, chi2min, warn)\<close>, either of them possibly raising. \<open>interp\<close> stands for
  the scipy interpolation of the coefficients.
\<close>


definition scale_rows :: "matrix \<Rightarrow> vec \<Rightarrow> matrix" where
  "scale_rows modelflux ww = map2 (\<lambda>row w. map (\<lambda>v. v * w) row) modelflux ww"

definition grid_solves ::
  "(matrix \<Rightarrow> vec \<Rightarrow> vec) \<Rightarrow> matrix list \<Rightarrow> vec \<Rightarrow> vec \<Rightarrow> nat \<Rightarrow> (bool \<times> vec \<times> real option) list" where
  "grid_solves fnnls modelgrid flux ivar nn =
     (let ww = map sqrt ivar;
          xx = map2 (\<lambda>f w. f * w) flux ww
      in map (\<lambda>ii. fnnls_continuum fnnls (scale_rows (modelgrid ! ii) ww) xx flux ivar
                      (modelgrid ! ii) True) [0..<nn])"



record grid_out =
  chi2min :: real
  xbest :: real
  xivar :: real
  bestcoeff :: "vec option"
  log_warning :: "string list"







section \<open>The NNLS solver\<close>

text \<open>
  Modelled from the spec: \<open>fnnls\<close> of \<open>fastspecfit.fnnls\<close> is missing from the sources.
  The specification describes it as a fast active-set solver of
  \<open>min ||Z c - x||^2\<close> subject to \<open>c \<ge> 0\<close>, called with \<open>AtA = Z^T Z\<close> and \<open>Aty = Z^T x\<close>,
  that never allows a negative coefficient. The model is the active-set method on the
  normal equations: a passive set \<open>P\<close> of templates with free coefficients, the
  unconstrained solution \<open>s\<close> on the passive set, and the feasible iterate \<open>x\<close>. The
  number of outer iterations is bounded by \<open>maxiter\<close>; when a bound is reached the
  feasible iterate is the answer.
\<close>

text \<open>\<open>xs[P]\<close> for a boolean mask \<open>P\<close>, and the inverse: values on \<open>P\<close>, zero elsewhere.\<close>

definition select :: "bool list \<Rightarrow> 'a list \<Rightarrow> 'a list" where
  "select P xs = map snd (filter fst (zip P xs))"

fun scatter :: "bool list \<Rightarrow> real list \<Rightarrow> real list" where
  "scatter [] vs = []"
| "scatter (True # P) [] = 0 # scatter P []"
| "scatter (True # P) (v # vs) = v # scatter P vs"
| "scatter (False # P) vs = 0 # scatter P vs"

text \<open>The linear system \<open>A z = b\<close> by elimination without pivoting.\<close>

function lsqs :: "matrix \<Rightarrow> vec \<Rightarrow> vec" where
  "lsqs ((a # r) # rows) (b # bs) =
     (let rows' = map (\<lambda>row. map2 (\<lambda>u v. v - (hd row / a) * u) r (tl row)) rows;
          bs' = map2 (\<lambda>row c. c - (hd row / a) * b) rows bs;
          zs = lsqs rows' bs'
      in (b - dot r zs) / a # zs)"
| "lsqs [] bs = []"
| "lsqs ([] # rows) bs = []"
| "lsqs ((a # r) # rows) [] = []"
  by pat_completeness auto
termination
  by (relation "measure (\<lambda>(A, b). length A)") auto

definition passive_solve :: "matrix \<Rightarrow> vec \<Rightarrow> bool list \<Rightarrow> vec" where
  "passive_solve AtA Aty P =
     scatter P (lsqs (map (select P) (select P AtA)) (select P Aty))"

text \<open>
  The inner loop: while a passive coefficient of \<open>s\<close> is not positive, move \<open>x\<close> towards
  \<open>s\<close> as far as feasibility allows, drop from the passive set the coefficients that
  reached zero, and solve again.
\<close>

definition ratios :: "bool list \<Rightarrow> vec \<Rightarrow> vec \<Rightarrow> real list" where
  "ratios P x s =
     map (\<lambda>(p, xi, si). xi / (xi - si))
         (filter (\<lambda>(p, xi, si). p \<and> si \<le> 0) (zip P (zip x s)))"

definition move :: "vec \<Rightarrow> vec \<Rightarrow> real \<Rightarrow> vec" where
  "move x s alpha = map2 (\<lambda>xi si. xi + alpha * (si - xi)) x s"

definition shrink :: "bool list \<Rightarrow> vec \<Rightarrow> bool list" where
  "shrink P x = map2 (\<lambda>p xi. p \<and> xi > 0) P x"

fun fnnls_inner ::
  "nat \<Rightarrow> matrix \<Rightarrow> vec \<Rightarrow> bool list \<Rightarrow> vec \<Rightarrow> vec \<Rightarrow> bool list \<times> vec" where
  "fnnls_inner 0 AtA Aty P x s = (P, x)"
| "fnnls_inner (Suc n) AtA Aty P x s =
     (if ratios P x s = [] then (P, s)
      else (let alpha = min_list (ratios P x s);
                x' = move x s alpha;
                P' = shrink P x'
            in fnnls_inner n AtA Aty P' x' (passive_solve AtA Aty P')))"

text \<open>
  The outer loop: while some template outside the passive set has a positive gradient
  \<open>w = Aty - AtA x\<close>, add the one with the largest gradient to the passive set.
\<close>

definition gradient :: "matrix \<Rightarrow> vec \<Rightarrow> vec \<Rightarrow> vec" where
  "gradient AtA Aty x = map2 (\<lambda>b v. b - v) Aty (matvec AtA x)"

definition argmax_of :: "vec \<Rightarrow> nat list \<Rightarrow> nat" where
  "argmax_of w cand = foldl (\<lambda>b i. if w ! i > w ! b then i else b) (hd cand) (tl cand)"

fun fnnls_outer :: "nat \<Rightarrow> matrix \<Rightarrow> vec \<Rightarrow> bool list \<Rightarrow> vec \<Rightarrow> vec" where
  "fnnls_outer 0 AtA Aty P x = x"
| "fnnls_outer (Suc n) AtA Aty P x =
     (let w = gradient AtA Aty x;
          cand = filter (\<lambda>i. \<not> P ! i) [0..<length P]
      in if cand = [] then x
         else (let m = argmax_of w cand
               in if w ! m \<le> 0 then x
                  else (let P1 = P[m := True];
                            (P2, x2) = fnnls_inner (Suc (length P)) AtA Aty P1 x
                                         (passive_solve AtA Aty P1)
                        in fnnls_outer n AtA Aty P2 x2)))"

definition spec_fnnls :: "nat \<Rightarrow> matrix \<Rightarrow> vec \<Rightarrow> vec" where
  "spec_fnnls maxiter AtA Aty =
     (let n = length Aty
      in fnnls_outer maxiter AtA Aty (replicate n False) (replicate n 0))"

section \<open>emlines.py: parameter names and the output table of \<open>EMLineFit.fit\<close>\<close>















text \<open>
  The names of the line table are written in lower case; \<open>lower\<close> undoes \<open>upper\<close> on
  such names.
\<close>

definition lower_char :: "char \<Rightarrow> char" where
  "lower_char c =
     (case map_of (zip ''ABCDEFGHIJKLMNOPQRSTUVWXYZ'' ''abcdefghijklmnopqrstuvwxyz'') c of
        None \<Rightarrow> c | Some C \<Rightarrow> C)"

definition lower :: "string \<Rightarrow> string" where
  "lower s = map lower_char s"


section \<open>emlines.py: control flow of \<open>EMLineFit.fit\<close> and \<open>build_linemodels\<close>\<close>

text \<open>
  \<open>pdb.set_trace()\<close> stops the program and hands control to whoever sits at the debugger
  prompt. The session is the list of the answers given at successive breakpoints:
  \<open>Continue\<close> resumes the program, \<open>Quit\<close> (or the end of the input) raises \<open>BdbQuit\<close>.
  Debugger commands that change the program (assigning names, jumping over lines) are
  not considered.
\<close>

datatype dbg_cmd = Continue | Quit

fun set_trace :: "dbg_cmd list \<Rightarrow> pyerror + dbg_cmd list" where
  "set_trace [] = Inl BdbQuit"
| "set_trace (Continue # cs) = Inr cs"
| "set_trace (Quit # cs) = Inl BdbQuit"

text \<open>
  Name resolution. A name that a function never assigns is looked up among the module's
  globals and the builtins; a name it assigns is local. The globals are the names bound
  at the top level of \<open>emlines.py\<close>; the builtins are the builtin functions and
  constants (the exception classes are left out).
\<close>

definition module_globals :: "string list" where
  "module_globals =
     [''pdb'', ''os'', ''time'', ''np'', ''multiprocessing'', ''u'', ''Table'', ''Column'',
      ''resample_flux'', ''trapz_rebin'', ''C_LIGHT'', ''ContinuumTools'', ''get_logger'',
      ''DEBUG'', ''log'', ''read_emlines'', ''build_linemodels'',
      ''initial_guesses_and_bounds'', ''emline_spectrum'', ''EMLineFit'']"

definition builtins :: "string list" where
  "builtins =
     [''abs'', ''all'', ''any'', ''ascii'', ''bin'', ''bool'', ''breakpoint'', ''bytearray'',
      ''bytes'', ''callable'', ''chr'', ''classmethod'', ''compile'', ''complex'',
      ''delattr'', ''dict'', ''dir'', ''divmod'', ''enumerate'', ''eval'', ''exec'',
      ''filter'', ''float'', ''format'', ''frozenset'', ''getattr'', ''globals'',
      ''hasattr'', ''hash'', ''help'', ''hex'', ''id'', ''input'', ''int'', ''isinstance'',
      ''issubclass'', ''iter'', ''len'', ''list'', ''locals'', ''map'', ''max'',
      ''memoryview'', ''min'', ''next'', ''object'', ''oct'', ''open'', ''ord'', ''pow'',
      ''print'', ''property'', ''range'', ''repr'', ''reversed'', ''round'', ''set'',
      ''setattr'', ''slice'', ''sorted'', ''staticmethod'', ''str'', ''sum'', ''super'',
      ''tuple'', ''type'', ''vars'', ''zip'', ''__import__'', ''True'', ''False'', ''None'',
      ''NotImplemented'', ''Ellipsis'', ''__debug__'']"

definition bound :: "string list \<Rightarrow> string \<Rightarrow> bool" where
  "bound locals x = (x \<in> set locals \<or> x \<in> set module_globals \<or> x \<in> set builtins)"

text \<open>
  A function body, as far as names and breakpoints go: a statement reads names, in
  evaluation order, and then binds names; a compound statement counts as one statement
  that reads the names it needs from outside and binds the names assigned inside it.
  The values computed are not tracked.
\<close>

datatype stmt = Breakpoint | Exec "string list" "string list" | Return "string list"

fun exec_body :: "stmt list \<Rightarrow> string list \<Rightarrow> dbg_cmd list \<Rightarrow> pyerror + dbg_cmd list" where
  "exec_body [] locals cs = Inr cs"
| "exec_body (Breakpoint # body) locals cs =
     (case set_trace cs of Inl e \<Rightarrow> Inl e | Inr cs' \<Rightarrow> exec_body body locals cs')"
| "exec_body (Exec loads stores # body) locals cs =
     (case find (\<lambda>x. \<not> bound locals x) loads of
        Some x \<Rightarrow> Inl (NameError x)
      | None \<Rightarrow> exec_body body (stores @ locals) cs)"
| "exec_body (Return loads # body) locals cs =
     (case find (\<lambda>x. \<not> bound locals x) loads of
        Some x \<Rightarrow> Inl (NameError x)
      | None \<Rightarrow> Inr cs)"

text \<open>
  The names that the first \<open>return\<close> statement reads and that no statement before it
  binds.
\<close>

fun unbound_at_return :: "stmt list \<Rightarrow> string list \<Rightarrow> string list" where
  "unbound_at_return [] locals = []"
| "unbound_at_return (Breakpoint # body) locals = unbound_at_return body locals"
| "unbound_at_return (Exec loads stores # body) locals =
     unbound_at_return body (stores @ locals)"
| "unbound_at_return (Return loads # body) locals = filter (\<lambda>x. \<not> bound locals x) loads"

text \<open>
  \<open>build_linemodels\<close>. Lines 41--169 build the table of tied parameters from the line
  table; their outcome is \<open>table_construction\<close>. They bind the names of
  \<open>locals_at_186\<close> besides the four parameters. Lines 186--222 follow statement by
  statement; the block under \<open>if verbose\<close> is taken not to raise.
\<close>

definition locals_at_186 :: "string list" where
  "locals_at_186 =
     [''linetable'', ''redshift'', ''wavelims'', ''verbose'',
      ''linenames'', ''param_names'', ''_linenames'', ''linename'', ''param'',
      ''param_name'', ''nparam'', ''linemodel'', ''iline'']"

definition build_linemodels_body :: "bool \<Rightarrow> stmt list" where
  "build_linemodels_body verbose =
     [Breakpoint,
      Exec [] [''neverfix''],
      Exec [''neverfix''] [''neverfix''],
      Exec [''neverfix''] [''neverfix''],
      Exec [''zline'', ''wavelims'', ''zline'', ''wavelims''] [''inrange''],
      Exec [''np'', ''inrange''] [''outofrange''],
      Exec [''np'', ''nparam'', ''bool''] [''fixed''],
      Exec [''linenames'', ''outofrange'', ''neverfix'', ''fixed'', ''param_names'']
           [''line'', ''param'', ''param_name'']]
     @ (if verbose
        then [Exec [''verbose'', ''linenames'', ''np'', ''param_names'', ''len'',
                    ''linemodel'', ''fixed'', ''print'']
                   [''linename'', ''param'', ''I'']]
        else [Exec [''verbose''] []])
     @ [Return [''tied'', ''tiedtoline'', ''fixed'']]"

definition build_linemodels :: "pyerror + unit \<Rightarrow> bool \<Rightarrow> dbg_cmd list \<Rightarrow> pyerror + dbg_cmd list" where
  "build_linemodels table_construction verbose cs =
     (case table_construction of
        Inl e \<Rightarrow> Inl e
      | Inr _ \<Rightarrow> exec_body (build_linemodels_body verbose) locals_at_186 cs)"

text \<open>
  \<open>EMLineFit.fit\<close>. Lines 744--772 stack the cameras (outcome \<open>stacking\<close>); line 774 is
  a breakpoint; line 778 calls \<open>build_linemodels\<close> with \<open>verbose=True\<close>; line 780 is a
  breakpoint; everything from line 782 to the \<open>return\<close> of the result table and the
  model spectra is the continuation \<open>rest\<close>.
\<close>

definition fit ::
  "pyerror + unit \<Rightarrow> pyerror + unit \<Rightarrow> (dbg_cmd list \<Rightarrow> pyerror + 'r) \<Rightarrow> dbg_cmd list \<Rightarrow>
   pyerror + 'r" where
  "fit stacking table_construction rest cs =
     (case stacking of
        Inl e \<Rightarrow> Inl e
      | Inr _ \<Rightarrow>
         (case set_trace cs of
            Inl e \<Rightarrow> Inl e
          | Inr cs1 \<Rightarrow>
             (case build_linemodels table_construction True cs1 of
                Inl e \<Rightarrow> Inl e
              | Inr cs2 \<Rightarrow>
                 (case set_trace cs2 of
                    Inl e \<Rightarrow> Inl e
                  | Inr cs3 \<Rightarrow> rest cs3))))"

section \<open>Verified properties\<close>

subsection \<open>The emission-line fit never returns\<close>

lemma zline_unbound: "\<not> bound (''neverfix'' # ''neverfix'' # ''neverfix'' # locals_at_186) ''zline''"
  by (simp add: bound_def locals_at_186_def module_globals_def builtins_def)

lemma neverfix_bound: "bound (''neverfix'' # ls) ''neverfix''"
  by (simp add: bound_def)

lemma body_after_breakpoint:
  "exec_body (tl (build_linemodels_body verbose)) locals_at_186 cs = Inl (NameError ''zline'')"
  by (simp add: build_linemodels_body_def zline_unbound neverfix_bound)

lemma build_linemodels_raises:
  "build_linemodels tc verbose cs =
     (case tc of Inl e \<Rightarrow> Inl e
      | Inr u \<Rightarrow> (case set_trace cs of Inl e \<Rightarrow> Inl e | Inr cs' \<Rightarrow> Inl (NameError ''zline'')))"
proof -
  have b: "build_linemodels_body verbose = Breakpoint # tl (build_linemodels_body verbose)"
    by (simp add: build_linemodels_body_def)
  show ?thesis
    unfolding build_linemodels_def
    by (subst b) (simp add: body_after_breakpoint split: sum.splits)
qed

text \<open>
  C1, as stated, names \<open>fixed\<close> among the undefined names of the \<open>return\<close> statement of
  \<open>build_linemodels\<close>. Line 198 assigns \<open>fixed\<close>, so it is bound where the statement
  reads it; only \<open>tied\<close> and \<open>tiedtoline\<close> are not.
\<close>

theorem return_names_counterexample:
  "''fixed'' \<notin> set (unbound_at_return (build_linemodels_body True) locals_at_186)"
  by (simp add: build_linemodels_body_def bound_def)

text \<open>
  C1 (amended). Whatever the input, the outcome of the table construction and the
  answers given at the breakpoints, \<open>fit\<close> raises and never reaches the code that
  produces the result table and the model spectra. It stops at a breakpoint before any
  optimisation (with no debugger input the run ends there), \<open>build_linemodels\<close> stops at
  a second breakpoint, and when both are continued the read of \<open>zline\<close> raises
  \<open>NameError\<close>. The \<open>return\<close> statement of \<open>build_linemodels\<close> reads two names that
  nothing binds, \<open>tied\<close> and \<open>tiedtoline\<close>.
\<close>

theorem fit_never_returns:
  "(\<forall>stacking tc (rest :: dbg_cmd list \<Rightarrow> pyerror + 'r) cs.
      \<exists>e. fit stacking tc rest cs = Inl e) \<and>
   (\<forall>(rest :: dbg_cmd list \<Rightarrow> pyerror + 'r) cs.
      fit (Inr ()) (Inr ()) rest (Continue # Continue # cs) = Inl (NameError ''zline'')) \<and>
   (\<forall>tc (rest :: dbg_cmd list \<Rightarrow> pyerror + 'r). fit (Inr ()) tc rest [] = Inl BdbQuit) \<and>
   (\<forall>(rest :: dbg_cmd list \<Rightarrow> pyerror + 'r).
      fit (Inr ()) (Inr ()) rest [Continue] = Inl BdbQuit) \<and>
   unbound_at_return (build_linemodels_body True) locals_at_186 = [''tied'', ''tiedtoline'']"
proof (intro conjI allI)
  fix stacking tc and rest :: "dbg_cmd list \<Rightarrow> pyerror + 'r" and cs
  show "\<exists>e. fit stacking tc rest cs = Inl e"
    by (auto simp: fit_def build_linemodels_raises split: sum.splits)
next
  fix rest :: "dbg_cmd list \<Rightarrow> pyerror + 'r" and cs
  show "fit (Inr ()) (Inr ()) rest (Continue # Continue # cs) = Inl (NameError ''zline'')"
    by (simp add: fit_def build_linemodels_raises)
next
  fix tc and rest :: "dbg_cmd list \<Rightarrow> pyerror + 'r"
  show "fit (Inr ()) tc rest [] = Inl BdbQuit"
    by (simp add: fit_def)
next
  fix rest :: "dbg_cmd list \<Rightarrow> pyerror + 'r"
  show "fit (Inr ()) (Inr ()) rest [Continue] = Inl BdbQuit"
    by (simp add: fit_def build_linemodels_raises)
next
  show "unbound_at_return (build_linemodels_body True) locals_at_186 = [''tied'', ''tiedtoline'']"
    by (simp add: build_linemodels_body_def bound_def locals_at_186_def module_globals_def
        builtins_def)
qed

subsection \<open>Broad-line model selection\<close>

text \<open>
  C3, as the specification states it, fails on a tie: with equal local chi-squares the
  broad model is "not better", yet \<open>fit\<close> keeps it, because the test is the strict
  \<open>linechi2_broad > linechi2_init\<close>.
\<close>

theorem broad_decision_tie_counterexample:
  "broad_decision [1] [1] [0] [2] [0] [1] = Broadfit \<and>
   \<not> alldropped [1] \<and>
   \<not> linechi2 [1] [1] [2] [0] < linechi2 [1] [1] [0] [0] \<and>
   spec_choose_bestfit [1] (linechi2 [1] [1] [2] [0]) (linechi2 [1] [1] [0] [0]) = Initfit"
  by (simp add: broad_decision_def choose_bestfit_def spec_choose_bestfit_def linechi2_def alldropped_def)

text \<open>
  C3 (amended). After the broad stage has run, the broad fit is the best fit exactly when
  some broad Balmer amplitude is non-zero and the broad chi-square within the broad-line
  windows is not larger than the narrow one; the narrow fit is kept exactly when all
  broad amplitudes are zero or the broad chi-square is strictly larger.
\<close>

theorem broad_decision_rule:
  "(broad_decision iv fl im bm pix amps = Broadfit \<longleftrightarrow>
      \<not> alldropped amps \<and> linechi2 iv fl bm pix \<le> linechi2 iv fl im pix) \<and>
   (broad_decision iv fl im bm pix amps = Initfit \<longleftrightarrow>
      alldropped amps \<or> linechi2 iv fl bm pix > linechi2 iv fl im pix)"
  by (auto simp: broad_decision_def choose_bestfit_def Let_def)

theorem broad_decision_rule_witness:
  "broad_decision [1] [1] [0] [1] [0] [3] = Broadfit \<and> \<not> alldropped [3] \<and>
   linechi2 [1] [1] [1] [0] \<le> linechi2 [1] [1] [0] [0]"
  using broad_decision_rule [of "[1]" "[1]" "[0]" "[1]" "[0]" "[3]"]
  by (simp add: linechi2_def alldropped_def)

subsection \<open>Degrees-of-freedom guard of \<open>EMLineFit.chi2\<close>\<close>

text \<open>
  C4. The degrees of freedom are the number of pixels with positive inverse variance
  minus the number of free parameters; the call never divides by zero, and when the
  degrees of freedom are not positive it returns \<open>chi2_default\<close> (which the constructor
  sets to 0 unless the caller supplies another value).
\<close>

theorem chi2_dof_guard:
  "chi2 self bestfit w f iv cm True \<noteq> Inl ZeroDivisionError \<and>
   chi2 self bestfit w f iv cm False \<noteq> Inl ZeroDivisionError \<and>
   (\<exists>c. chi2 self bestfit w f iv cm True
          = Inr (Chi2_dof c (count_positive iv - count_free_parameters bestfit))) \<and>
   (count_positive iv - count_free_parameters bestfit \<le> 0 \<longrightarrow>
      chi2 self bestfit w f iv cm False = Inr (Chi2 (chi2_default self)) \<and>
      chi2 self bestfit w f iv cm True
        = Inr (Chi2_dof (chi2_default self)
                 (count_positive iv - count_free_parameters bestfit)) \<and>
      chi2 EMLineFit_init bestfit w f iv cm False = Inr (Chi2 0))"
  by (auto simp: chi2_def truediv_def Let_def EMLineFit_init_def)

theorem chi2_dof_guard_witness:
  "count_positive [1, 0] - count_free_parameters \<lparr> count_free_parameters = 3, evaluate = (\<lambda>w. w) \<rparr> \<le> 0 \<and>
   chi2 \<lparr> chi2_default = 7 \<rparr> \<lparr> count_free_parameters = 3, evaluate = (\<lambda>w. w) \<rparr>
        [1, 2] [5, 6] [1, 0] None True = Inr (Chi2_dof 7 (- 2))"
  using chi2_dof_guard [of "\<lparr> chi2_default = 7 \<rparr>"
      "\<lparr> count_free_parameters = 3, evaluate = (\<lambda>w. w) \<rparr>" "[1, 2]" "[5, 6]" "[1, 0]" None]
  by (simp add: count_positive_def)

subsection \<open>Doublet amplitudes in the output table\<close>




















































subsection \<open>Normalisation of the spectroscopic chi-square\<close>

text \<open>
  C6. The specification divides the chi-square of the final solve by the number of
  unmasked pixels minus one, as \<open>continuum_fastphot\<close> does for the photometry;
  \<open>continuum_specfit\<close> divides by the number of unmasked pixels. On two unmasked pixels
  with fluxes 1 and 3 and one flat template with coefficient 2 the weighted residual sum
  of squares is 2: the function reports 1, the specification asks for 2.
\<close>

theorem continuum_specfit_rchi2_divisor:
  "continuum_specfit_rchi2 (\<lambda>AtA Aty. [2]) [1, 1] [False, False] [1, 3] [[1], [1]] = Inr 1 \<and>
   weighted_rss [1, 1] [1, 3] (matvec [[1], [1]] [2])
     / (real_of_int (count_positive [1, 1]) - 1) = 2"
  by (simp add: continuum_specfit_rchi2_def mask_lines_def fnnls_parallel_fixed_def
      fnnls_continuum_def weighted_rss_def matvec_def dot_def truediv_def count_positive_def)

subsection \<open>When the velocity-dispersion grid search runs\<close>


subsection \<open>Fully masked photometry\<close>

text \<open>
  C9. Once the templates are prepared, photometry whose inverse variances are all zero
  makes \<open>continuum_fastphot\<close> return: A(V) is the nominal value with inverse variance 0,
  every template coefficient is 0 and the chi-square is 0.
\<close>

theorem fastphot_all_masked:
  assumes prep: "prep = Inr templates"
      and len: "length (phot_flam_ivar data) = length (bands_to_fit self)"
      and zero: "\<forall>v \<in> set (phot_flam_ivar data). v = 0"
  shows "\<exists>result model.
           continuum_fastphot self data prep fit_phot derive = Inr (result, model) \<and>
           CONTINUUM_AV result = AV_nominal self \<and>
           CONTINUUM_AV_IVAR result = 0 \<and>
           CONTINUUM_COEFF result = replicate (nage self) 0 \<and>
           CONTINUUM_RCHI2 result = 0"
proof -
  let ?oi = "map2 (\<lambda>v b. (v / (fluxnorm self)\<^sup>2) * (if b then 1 else 0))
               (phot_flam_ivar data) (bands_to_fit self)"
  have z: "\<forall>v \<in> set ?oi. v = 0"
    using zero by (auto simp: set_zip)
  then have a: "list_all (\<lambda>v. v = 0) ?oi" "list_all (\<lambda>v. v \<ge> 0) ?oi"
    by (simp_all add: list_all_iff)
  have f: "filter (\<lambda>c. c > 0) (replicate (nage self) (0::real)) = []"
    by (induction "nage self") auto
  show ?thesis
    using a by (simp add: continuum_fastphot_def prep len Let_def init_phot_output_def
        assign_prefix_def f)
qed

theorem fastphot_all_masked_witness:
  "\<exists>result model.
     continuum_fastphot
       \<lparr> AV_nominal = 0, vdisp_nominal = 150, solve_vdisp = False, nage = 2, npix = 3,
         fluxnorm = 10, massnorm = 1, bands_to_fit = [True, False] \<rparr>
       \<lparr> zredrock = 0.5, cameras = [], snr = [], wave = [],
         phot_flam = [1, 2], phot_flam_ivar = [0, 0] \<rparr>
       (Inr ()) (\<lambda>t f v. Inl (RuntimeError ''unused'')) (\<lambda>ft. Inl (RuntimeError ''unused''))
       = Inr (result, model) \<and>
     CONTINUUM_AV result = 0 \<and> CONTINUUM_AV_IVAR result = 0 \<and>
     CONTINUUM_COEFF result = [0, 0] \<and> CONTINUUM_RCHI2 result = 0"
  using fastphot_all_masked [of "Inr ()" "()"
       "\<lparr> zredrock = 0.5, cameras = [], snr = [], wave = [],
         phot_flam = [1, 2], phot_flam_ivar = [0, 0] \<rparr>"
       "\<lparr> AV_nominal = 0, vdisp_nominal = 150, solve_vdisp = False, nage = 2, npix = 3,
         fluxnorm = 10, massnorm = 1, bands_to_fit = [True, False] \<rparr>"
       "\<lambda>t f v. Inl (RuntimeError ''unused'')" "\<lambda>ft. Inl (RuntimeError ''unused'')"]
  by (simp add: numeral_2_eq_2)

subsection \<open>Acceptance of the re-estimated line widths\<close>

lemma class_linesigma_last_fit:
  "\<exists>i. class_linesigma g refit zl init lo =
        (if fst (g zl i) < lo \<or> fst (g zl i) > 5 * init \<or> snd (g zl i) < linesigma_snr_min
         then (init, 0) else g zl i)"
proof -
  obtain w1 s1 where 1: "g zl init = (w1, s1)" by force
  obtain w2 s2 where 2: "g zl w1 = (w2, s2)" by force
  let ?c = "refit \<and> s1 > 0 \<and> (w1 > init \<and> w1 < 5 * init \<and> s1 > linesigma_snr_min)"
  show ?thesis
  proof (cases ?c)
    case True
    then have "class_linesigma g refit zl init lo =
        (if fst (g zl w1) < lo \<or> fst (g zl w1) > 5 * init \<or> snd (g zl w1) < linesigma_snr_min
         then (init, 0) else g zl w1)"
      by (simp add: class_linesigma_def 1 2)
    then show ?thesis by blast
  next
    case False
    then have "class_linesigma g refit zl init lo =
        (if fst (g zl init) < lo \<or> fst (g zl init) > 5 * init \<or> snd (g zl init) < linesigma_snr_min
         then (init, 0) else g zl init)"
      by (auto simp add: class_linesigma_def 1 2)
    then show ?thesis by blast
  qed
qed

lemma class_linesigma_cases:
  "class_linesigma g refit zl init lo = (init, 0) \<or>
   (\<exists>i. class_linesigma g refit zl init lo = g zl i \<and>
        lo \<le> fst (g zl i) \<and> fst (g zl i) \<le> 5 * init \<and> linesigma_snr_min \<le> snd (g zl i))"
proof -
  obtain i where i: "class_linesigma g refit zl init lo =
        (if fst (g zl i) < lo \<or> fst (g zl i) > 5 * init \<or> snd (g zl i) < linesigma_snr_min
         then (init, 0) else g zl i)"
    using class_linesigma_last_fit by blast
  show ?thesis
  proof (cases "fst (g zl i) < lo \<or> fst (g zl i) > 5 * init \<or> snd (g zl i) < linesigma_snr_min")
    case True
    with i show ?thesis by simp
  next
    case False
    with i have "class_linesigma g refit zl init lo = g zl i \<and>
        lo \<le> fst (g zl i) \<and> fst (g zl i) \<le> 5 * init \<and> linesigma_snr_min \<le> snd (g zl i)"
      by auto
    then show ?thesis by blast
  qed
qed

lemma class_linesigma_pair:
  assumes "class_linesigma g refit zl init lo = (w, s)"
  shows "(w = init \<and> s = 0) \<or>
         (\<exists>i. (w, s) = g zl i \<and> lo \<le> w \<and> w \<le> 5 * init \<and> linesigma_snr_min \<le> s)"
proof -
  from class_linesigma_cases [of g refit zl init lo]
  show ?thesis
  proof
    assume "class_linesigma g refit zl init lo = (init, 0)"
    with assms show ?thesis by simp
  next
    assume "\<exists>i. class_linesigma g refit zl init lo = g zl i \<and>
        lo \<le> fst (g zl i) \<and> fst (g zl i) \<le> 5 * init \<and> linesigma_snr_min \<le> snd (g zl i)"
    then obtain i where i: "class_linesigma g refit zl init lo = g zl i"
        "lo \<le> fst (g zl i)" "fst (g zl i) \<le> 5 * init" "linesigma_snr_min \<le> snd (g zl i)"
      by blast
    from i(1) assms have e: "g zl i = (w, s)" by simp
    with i have "(w, s) = g zl i \<and> lo \<le> w \<and> w \<le> 5 * init \<and> linesigma_snr_min \<le> s"
      by simp
    then show ?thesis by blast
  qed
qed

lemma narrow_class:
  "class_linesigma g refit zl init_linesigma_narrow 50 = (n, ns) \<Longrightarrow>
   (n = 200 \<and> ns = 0) \<or> (\<exists>i. (n, ns) = g zl i \<and> 50 \<le> n \<and> n \<le> 1000 \<and> 1.5 \<le> ns)"
  using class_linesigma_pair [of g refit zl init_linesigma_narrow 50 n ns]
  by (simp add: init_linesigma_narrow_def linesigma_snr_min_def)

lemma balmer_class:
  "class_linesigma g refit zl init_linesigma_balmer 50 = (n, ns) \<Longrightarrow>
   (n = 1000 \<and> ns = 0) \<or> (\<exists>i. (n, ns) = g zl i \<and> 50 \<le> n \<and> n \<le> 5000 \<and> 1.5 \<le> ns)"
  using class_linesigma_pair [of g refit zl init_linesigma_balmer 50 n ns]
  by (simp add: init_linesigma_balmer_def linesigma_snr_min_def)

lemma uv_class:
  "class_linesigma g refit zl init_linesigma_uv 300 = (n, ns) \<Longrightarrow>
   (n = 2000 \<and> ns = 0) \<or> (\<exists>i. (n, ns) = g zl i \<and> 300 \<le> n \<and> n \<le> 10000 \<and> 1.5 \<le> ns)"
  using class_linesigma_pair [of g refit zl init_linesigma_uv 300 n ns]
  by (simp add: init_linesigma_uv_def linesigma_snr_min_def)

text \<open>
  C10, as the specification states it, fails: a narrow-class fit of width 100 km/s (below
  the anchor of 200 km/s) with signal-to-noise 10 is accepted, because the lower limit of
  the final test is the literal 50 km/s, not the anchor.
\<close>

theorem estimate_linesigmas_counterexample:
  "linesigma_narrow (estimate_linesigmas (\<lambda>_ _. (100, 10)) 0 True) = 100 \<and>
   linesigma_narrow_snr (estimate_linesigmas (\<lambda>_ _. (100, 10)) 0 True) = 10 \<and>
   \<not> spec_accepts init_linesigma_narrow 100 10"
  by (simp add: estimate_linesigmas_def class_linesigma_def spec_accepts_def
      init_linesigma_narrow_def init_linesigma_balmer_def init_linesigma_uv_def linesigma_snr_min_def)

text \<open>
  C10 (amended). For each class the result is either the class's initial width with
  signal-to-noise 0, or an output of the stacked-Gaussian fit whose signal-to-noise is at
  least 1.5 and whose width lies in \<open>[50, 5 * 200]\<close> (narrow), \<open>[50, 5 * 1000]\<close>
  (Balmer) or \<open>[300, 5 * 2000]\<close> (UV).
\<close>

theorem estimate_linesigmas_acceptance:
  fixes g :: "real list \<Rightarrow> real \<Rightarrow> real \<times> real" and z :: real and refit :: bool
  defines "r \<equiv> estimate_linesigmas g z refit"
  shows
  "((linesigma_narrow r = 200 \<and> linesigma_narrow_snr r = 0) \<or>
    (\<exists>i. (linesigma_narrow r, linesigma_narrow_snr r)
            = g (map (\<lambda>w. w * (1 + z)) [3728.483, 4960.295, 5008.239]) i \<and>
         50 \<le> linesigma_narrow r \<and> linesigma_narrow r \<le> 1000 \<and>
         1.5 \<le> linesigma_narrow_snr r)) \<and>
   ((linesigma_balmer r = 1000 \<and> linesigma_balmer_snr r = 0) \<or>
    (\<exists>i. (linesigma_balmer r, linesigma_balmer_snr r)
            = g (map (\<lambda>w. w * (1 + z)) [4862.683, 6564.613]) i \<and>
         50 \<le> linesigma_balmer r \<and> linesigma_balmer r \<le> 5000 \<and>
         1.5 \<le> linesigma_balmer_snr r)) \<and>
   ((linesigma_uv r = 2000 \<and> linesigma_uv_snr r = 0) \<or>
    (\<exists>i. (linesigma_uv r, linesigma_uv_snr r)
            = g (map (\<lambda>w. w * (1 + z)) [1549.4795, 2799.942]) i \<and>
         300 \<le> linesigma_uv r \<and> linesigma_uv r \<le> 10000 \<and>
         1.5 \<le> linesigma_uv_snr r))"
proof -
  let ?zn = "map (\<lambda>w. w * (1 + z)) [3728.483, 4960.295, 5008.239]"
  let ?zb = "map (\<lambda>w. w * (1 + z)) [4862.683, 6564.613]"
  let ?zu = "map (\<lambda>w. w * (1 + z)) [1549.4795, 2799.942]"
  obtain n ns where n: "class_linesigma g refit ?zn init_linesigma_narrow 50 = (n, ns)" by force
  obtain b bs where b: "class_linesigma g refit ?zb init_linesigma_balmer 50 = (b, bs)" by force
  obtain u us where u: "class_linesigma g refit ?zu init_linesigma_uv 300 = (u, us)" by force
  have r: "linesigma_narrow r = n" "linesigma_narrow_snr r = ns"
          "linesigma_balmer r = b" "linesigma_balmer_snr r = bs"
          "linesigma_uv r = u" "linesigma_uv_snr r = us"
    unfolding r_def estimate_linesigmas_def n b u by simp_all
  show ?thesis unfolding r
    using narrow_class [OF n] balmer_class [OF b] uv_class [OF u] by blast
qed

subsection \<open>Skipping the sub-grid refinement\<close>













subsection \<open>Non-negative template coefficients\<close>

lemma scatter_length: "length (scatter P vs) = length P"
  by (induction P vs rule: scatter.induct) auto

lemma scatter_off: "i < length P \<Longrightarrow> \<not> P ! i \<Longrightarrow> scatter P vs ! i = 0"
proof (induction P vs arbitrary: i rule: scatter.induct)
  case (1 vs)
  then show ?case by simp
next
  case (2 P)
  then show ?case by (cases i) auto
next
  case (3 P v vs)
  then show ?case by (cases i) auto
next
  case (4 P vs)
  then show ?case by (cases i) auto
qed

lemma passive_solve_length: "length (passive_solve AtA Aty P) = length P"
  by (simp add: passive_solve_def scatter_length)

lemma passive_solve_off:
  "i < length P \<Longrightarrow> \<not> P ! i \<Longrightarrow> passive_solve AtA Aty P ! i = 0"
  by (simp add: passive_solve_def scatter_off)

lemma ratio_bounds:
  assumes r: "r \<in> set (ratios P x s)" and x: "\<forall>v \<in> set x. 0 \<le> v"
  shows "0 \<le> r \<and> r \<le> 1"
proof -
  from r obtain p xi si where m: "(p, xi, si) \<in> set (zip P (zip x s))"
    and si: "si \<le> 0" and req: "r = xi / (xi - si)"
    by (auto simp: ratios_def)
  from m have "(xi, si) \<in> set (zip x s)" by (rule set_zip_rightD)
  then have "xi \<in> set x" by (rule set_zip_leftD)
  with x have xi: "0 \<le> xi" by blast
  show ?thesis
  proof (cases "xi - si = 0")
    case True
    then show ?thesis by (simp add: req)
  next
    case False
    with xi si have pos: "0 < xi - si" by simp
    from xi si have "xi \<le> xi - si" by simp
    with pos xi show ?thesis by (simp add: req)
  qed
qed

lemma ratio_member:
  assumes i: "i < length P" and lx: "length x = length P" and ls: "length s = length P"
      and p: "P ! i" and si: "s ! i \<le> 0"
  shows "x ! i / (x ! i - s ! i) \<in> set (ratios P x s)"
proof -
  have "(P ! i, x ! i, s ! i) \<in> set (zip P (zip x s))"
    using i lx ls by (auto simp: set_zip intro!: exI [of _ i])
  with p si have "(P ! i, x ! i, s ! i)
      \<in> set (filter (\<lambda>(p, xi, si). p \<and> si \<le> 0) (zip P (zip x s)))"
    by simp
  then have "(\<lambda>(p, xi, si). xi / (xi - si)) (P ! i, x ! i, s ! i) \<in> set (ratios P x s)"
    unfolding ratios_def set_map by (rule imageI)
  then show ?thesis by simp
qed

lemma move_nonneg:
  assumes lx: "length x = length P" and ls: "length s = length P"
      and x: "\<forall>v \<in> set x. 0 \<le> v"
      and off: "\<forall>i < length P. \<not> P ! i \<longrightarrow> 0 \<le> s ! i"
      and ne: "ratios P x s \<noteq> []"
  shows "\<forall>v \<in> set (move x s (min_list (ratios P x s))). 0 \<le> v"
proof -
  let ?a = "min_list (ratios P x s)"
  have amin: "?a = Min (set (ratios P x s))" using ne by (rule min_list_Min)
  have ain: "?a \<in> set (ratios P x s)" unfolding amin using ne by (intro Min_in) auto
  from ratio_bounds [OF ain x] have a0: "0 \<le> ?a" and a1: "?a \<le> 1" by simp_all
  have "\<forall>i < length (move x s ?a). 0 \<le> move x s ?a ! i"
  proof (intro allI impI)
    fix i assume "i < length (move x s ?a)"
    then have i: "i < length P" using lx ls by (simp add: move_def)
    have xi: "0 \<le> x ! i" using x i lx by simp
    have eq: "move x s ?a ! i = x ! i + ?a * (s ! i - x ! i)"
      using i lx ls by (simp add: move_def)
    show "0 \<le> move x s ?a ! i"
    proof (cases "0 \<le> s ! i")
      case True
      have "x ! i + ?a * (s ! i - x ! i) = (1 - ?a) * x ! i + ?a * s ! i"
        by (simp add: algebra_simps)
      moreover have "0 \<le> (1 - ?a) * x ! i" using a1 xi by simp
      moreover have "0 \<le> ?a * s ! i" using a0 True by simp
      ultimately show ?thesis unfolding eq by linarith
    next
      case False
      then have neg: "s ! i < 0" by simp
      with off i have p: "P ! i" by force
      from neg have le: "s ! i \<le> 0" by simp
      have "?a \<le> x ! i / (x ! i - s ! i)"
        unfolding amin using ratio_member [OF i lx ls p le] by (intro Min_le) auto
      moreover have pos: "0 < x ! i - s ! i" using xi neg by simp
      ultimately have "?a * (x ! i - s ! i) \<le> x ! i"
        by (simp add: pos_le_divide_eq)
      then show ?thesis unfolding eq by (simp add: algebra_simps)
    qed
  qed
  then show ?thesis by (simp add: all_set_conv_all_nth)
qed


lemma fnnls_inner_nonneg:
  assumes "length x = length P" and "length s = length P"
      and "\<forall>v \<in> set x. 0 \<le> v"
      and "\<forall>i < length P. \<not> P ! i \<longrightarrow> 0 \<le> s ! i"
  shows "length (snd (fnnls_inner n AtA Aty P x s)) = length (fst (fnnls_inner n AtA Aty P x s)) \<and>
         (\<forall>v \<in> set (snd (fnnls_inner n AtA Aty P x s)). 0 \<le> v)"
  using assms
proof (induction n arbitrary: P x s)
  case 0
  then show ?case by simp
next
  case (Suc n)
  show ?case
  proof (cases "ratios P x s = []")
    case True
    have "\<forall>i < length s. 0 \<le> s ! i"
    proof (intro allI impI)
      fix i assume "i < length s"
      then have i: "i < length P" using Suc.prems(2) by simp
      show "0 \<le> s ! i"
      proof (cases "P ! i")
        case False
        with Suc.prems(4) i show ?thesis by blast
      next
        case p: True
        show ?thesis
        proof (rule ccontr)
          assume "\<not> 0 \<le> s ! i"
          then have "s ! i \<le> 0" by simp
          from ratio_member [OF i Suc.prems(1) Suc.prems(2) p this] True
          show False by simp
        qed
      qed
    qed
    then have "\<forall>v \<in> set s. 0 \<le> v" by (simp add: all_set_conv_all_nth)
    with True Suc.prems(2) show ?thesis by simp
  next
    case False
    let ?a = "min_list (ratios P x s)"
    let ?x = "move x s ?a"
    let ?P = "shrink P ?x"
    let ?s = "passive_solve AtA Aty ?P"
    have lx: "length ?x = length P" using Suc.prems(1,2) by (simp add: move_def)
    have lP: "length ?P = length P" using lx by (simp add: shrink_def)
    have 1: "length ?x = length ?P" using lx lP by simp
    have 2: "length ?s = length ?P" by (rule passive_solve_length)
    have 3: "\<forall>v \<in> set ?x. 0 \<le> v"
      by (rule move_nonneg [OF Suc.prems(1) Suc.prems(2) Suc.prems(3) Suc.prems(4) False])
    have 4: "\<forall>i < length ?P. \<not> ?P ! i \<longrightarrow> 0 \<le> ?s ! i"
      by (simp add: passive_solve_off)
    have "fnnls_inner (Suc n) AtA Aty P x s = fnnls_inner n AtA Aty ?P ?x ?s"
      using False by (simp add: Let_def)
    with Suc.IH [OF 1 2 3 4] show ?thesis by simp
  qed
qed

lemma fnnls_outer_nonneg:
  assumes "length x = length P" and "\<forall>v \<in> set x. 0 \<le> v"
  shows "\<forall>v \<in> set (fnnls_outer n AtA Aty P x). 0 \<le> v"
  using assms
proof (induction n arbitrary: P x)
  case 0
  then show ?case by simp
next
  case (Suc n)
  let ?w = "gradient AtA Aty x"
  let ?cand = "filter (\<lambda>i. \<not> P ! i) [0..<length P]"
  let ?m = "argmax_of ?w ?cand"
  let ?P1 = "P[?m := True]"
  let ?s = "passive_solve AtA Aty ?P1"
  let ?r = "fnnls_inner (Suc (length P)) AtA Aty ?P1 x ?s"
  show ?case
  proof (cases "?cand = [] \<or> ?w ! ?m \<le> 0")
    case True
    then have "fnnls_outer (Suc n) AtA Aty P x = x" by (auto simp: Let_def)
    with Suc.prems(2) show ?thesis by simp
  next
    case False
    have 1: "length x = length ?P1" using Suc.prems(1) by simp
    have 2: "length ?s = length ?P1" by (rule passive_solve_length)
    have 4: "\<forall>i < length ?P1. \<not> ?P1 ! i \<longrightarrow> 0 \<le> ?s ! i"
      by (simp add: passive_solve_off)
    from fnnls_inner_nonneg [OF 1 2 Suc.prems(2) 4, of "Suc (length P)" AtA Aty]
    have l: "length (snd ?r) = length (fst ?r)" and nn: "\<forall>v \<in> set (snd ?r). 0 \<le> v"
      by simp_all
    have "fnnls_outer (Suc n) AtA Aty P x = fnnls_outer n AtA Aty (fst ?r) (snd ?r)"
      using False by (simp add: Let_def split: prod.splits)
    with Suc.IH [OF l nn] show ?thesis by simp
  qed
qed

lemma spec_fnnls_nonneg: "\<forall>v \<in> set (spec_fnnls maxiter AtA Aty). 0 \<le> v"
  unfolding spec_fnnls_def Let_def
  by (rule fnnls_outer_nonneg) simp_all

lemma example_solve:
  "spec_fnnls 10 (gram [[2, 1], [1, 2]]) (tdot [[2, 1], [1, 2]] [3, 0]) = [6 / 5, 0]"
  by code_simp

text \<open>
  C2. With the active-set solver of the specification, every coefficient that
  \<open>fnnls_continuum\<close> returns is non-negative, for every design matrix and target and
  every iteration bound; the same holds for the final solve of \<open>_fnnls_parallel\<close> and
  for the solve at every trial value of the grid.
\<close>

theorem fnnls_continuum_nonneg:
  "(\<forall>c \<in> set (fst (snd (fnnls_continuum (spec_fnnls maxiter) ZZ xx flux iv modelflux get_chi2))).
      0 \<le> c) \<and>
   (\<forall>c \<in> set (fst (fnnls_parallel_fixed (spec_fnnls maxiter) modelflux flux iv)). 0 \<le> c) \<and>
   (\<forall>r \<in> set (grid_solves (spec_fnnls maxiter) modelgrid flux iv nn).
      \<forall>c \<in> set (fst (snd r)). 0 \<le> c)"
proof (intro conjI)
  show "\<forall>c \<in> set (fst (snd (fnnls_continuum (spec_fnnls maxiter) ZZ xx flux iv modelflux
      get_chi2))). 0 \<le> c"
    using spec_fnnls_nonneg by (simp add: fnnls_continuum_def Let_def)
  show "\<forall>c \<in> set (fst (fnnls_parallel_fixed (spec_fnnls maxiter) modelflux flux iv)). 0 \<le> c"
    using spec_fnnls_nonneg
    by (simp add: fnnls_parallel_fixed_def fnnls_continuum_def Let_def)
  show "\<forall>r \<in> set (grid_solves (spec_fnnls maxiter) modelgrid flux iv nn).
      \<forall>c \<in> set (fst (snd r)). 0 \<le> c"
    using spec_fnnls_nonneg
    by (auto simp: grid_solves_def fnnls_continuum_def Let_def)
qed

theorem fnnls_continuum_nonneg_witness:
  "fst (snd (fnnls_continuum (spec_fnnls 10) [[2, 1], [1, 2]] [3, 0] [] [] [] False))
     = [6 / 5, 0] \<and>
   (0 :: real) \<le> 6 / 5 \<and> (0 :: real) \<le> 0"
  using fnnls_continuum_nonneg [of 10 "[[2, 1], [1, 2]]" "[3, 0]" "[]" "[]" "[]" False "[]" 0]
  by (simp add: fnnls_continuum_def example_solve)

end
